theory Spec2Isabelle
  imports Main
begin

section \<open>GotMail service views: data model\<close>

text \<open>
  The views of \<^verbatim>\<open>gotmail_service/views.py\<close> read and write the tables of the
  relational store through the ORM. A table is the list of its rows, a row is a record,
  a nullable column is an \<open>option\<close>. Time stamps are microseconds since the epoch;
  every call of \<^verbatim>\<open>timezone.now()\<close> is an argument of the view that makes it.
  A \<open>string\<close> is the list of the characters of a \<^verbatim>\<open>str\<close>, so that \<open>length\<close> is
  what \<^verbatim>\<open>len\<close> counts.
\<close>

type_synonym datetime = int

definition timedelta_days :: "int \<Rightarrow> int" where
  "timedelta_days n = n * 86400000000"

record user =
  user_id :: nat
  phone_number :: string
  first_name :: "string option"
  last_name :: "string option"
  user_email :: "string option"
  session_token :: "string option"
  session_expiry :: "datetime option"

record user_profile =
  profile_user :: nat
  two_factor_enabled :: bool

record user_settings =
  settings_user :: nat
  auto_reply_enabled :: bool
  auto_reply_message :: "string option"
  auto_reply_start_date :: "datetime option"
  auto_reply_end_date :: "datetime option"
  dark_mode :: bool

record label =
  label_user :: nat
  label_name :: string
  label_color :: string

record email =
  email_id :: nat
  sender :: nat
  recipients :: "nat list"
  subject :: string
  body :: string
  sent_at :: datetime
  is_read :: bool
  is_starred :: bool
  is_trashed :: bool
  email_labels :: "string list"
  attachments :: "nat list"

record db =
  User_objects :: "user list"
  UserProfile_objects :: "user_profile list"
  UserSettings_objects :: "user_settings list"
  Label_objects :: "label list"
  Email_objects :: "email list"

text \<open>Exceptions that leave a function, and the responses a view returns.\<close>

datatype exn =
    DoesNotExist
  | MultipleObjectsReturned
  | RelatedObjectDoesNotExist
  | AuthenticationFailed string
  | ValidationError string
  | TypeError
  | AttributeError
  | ParseError

datatype payload =
    Error string
  | Message string
  | SerializerErrors
  | UserData user
  | UserMessage user string
  | AutoReplyData user_settings

record response =
  payload :: payload
  status :: nat

definition Response :: "payload \<Rightarrow> nat \<Rightarrow> response" where
  "Response p s = \<lparr>payload = p, status = s\<rparr>"

definition HTTP_200_OK :: nat where "HTTP_200_OK = 200"
definition HTTP_201_CREATED :: nat where "HTTP_201_CREATED = 201"
definition HTTP_400_BAD_REQUEST :: nat where "HTTP_400_BAD_REQUEST = 400"
definition HTTP_500_INTERNAL_SERVER_ERROR :: nat where "HTTP_500_INTERNAL_SERVER_ERROR = 500"

text \<open>
  Python truthiness of a value that is \<^verbatim>\<open>None\<close> or a \<^verbatim>\<open>str\<close>, and
  \<^verbatim>\<open>a or b\<close>, which is \<open>a\<close> when \<open>a\<close> is truthy and \<open>b\<close> otherwise.
\<close>

definition truthy :: "string option \<Rightarrow> bool" where
  "truthy v = (case v of None \<Rightarrow> False | Some s \<Rightarrow> s \<noteq> [])"

definition py_or :: "string option \<Rightarrow> string option \<Rightarrow> string option" where
  "py_or a b = (if truthy a then a else b)"

section \<open>Session lookup\<close>

text \<open>
  \<^verbatim>\<open>Model.objects.get(...)\<close> returns the one row that satisfies the condition, raises
  \<^verbatim>\<open>DoesNotExist\<close> when there is none and \<^verbatim>\<open>MultipleObjectsReturned\<close> when there are
  several.
\<close>

definition objects_get :: "'r list \<Rightarrow> ('r \<Rightarrow> bool) \<Rightarrow> exn + 'r" where
  "objects_get rows cond =
     (case filter cond rows of
        [] \<Rightarrow> Inl DoesNotExist
      | [r] \<Rightarrow> Inr r
      | _ \<Rightarrow> Inl MultipleObjectsReturned)"

text \<open>
  The condition \<^verbatim>\<open>session_token=tok, session_expiry__gt=now\<close>. A null expiry is
  greater than nothing; a \<^verbatim>\<open>None\<close> token compares with the null column.
\<close>

definition live_session :: "string option \<Rightarrow> datetime \<Rightarrow> user \<Rightarrow> bool" where
  "live_session tok now u =
     (session_token u = tok \<and>
      (case session_expiry u of None \<Rightarrow> False | Some e \<Rightarrow> now < e))"

text \<open>
  \<^verbatim>\<open>instance.save()\<close> on a row read from the table: the row with the same primary
  key is replaced, and the row is inserted when no row has that key.
\<close>

definition user_save :: "user \<Rightarrow> db \<Rightarrow> db" where
  "user_save u d =
     (if \<exists>r \<in> set (User_objects d). user_id r = user_id u
      then d\<lparr>User_objects := map (\<lambda>r. if user_id r = user_id u then u else r) (User_objects d)\<rparr>
      else d\<lparr>User_objects := User_objects d @ [u]\<rparr>)"

text \<open>
  A request, as far as the session views read it. Reading \<^verbatim>\<open>request.data\<close> parses the
  body: it raises \<^verbatim>\<open>ParseError\<close> for a body that cannot be parsed; a body that is
  no mapping (a JSON list, say) has no \<^verbatim>\<open>get\<close>, and the call raises
  \<^verbatim>\<open>AttributeError\<close>; for a mapping, \<^verbatim>\<open>get("session_token")\<close> is the value of
  the key or \<^verbatim>\<open>None\<close>.
\<close>

datatype request_data = Unparsable | NotMapping | Mapping "string option"

record request =
  headers_Authorization :: "string option"
  data :: request_data

definition data_get_session_token :: "request \<Rightarrow> exn + string option" where
  "data_get_session_token request =
     (case data request of
        Unparsable \<Rightarrow> Inl ParseError
      | NotMapping \<Rightarrow> Inl AttributeError
      | Mapping v \<Rightarrow> Inr v)"

text \<open>\<^verbatim>\<open>SessionTokenAuthentication.authenticate\<close>; the store is returned as it is left.\<close>

definition authenticate :: "db \<Rightarrow> datetime \<Rightarrow> request \<Rightarrow> (exn + user option) \<times> db" where
  "authenticate d now request =
     (let session_token = headers_Authorization request in
      if \<not> truthy session_token then (Inr None, d)
      else (case objects_get (User_objects d) (live_session session_token now) of
              Inr user \<Rightarrow> (Inr (Some user), d)
            | Inl DoesNotExist \<Rightarrow> (Inl (AuthenticationFailed ''Invalid or expired token''), d)
            | Inl e \<Rightarrow> (Inl e, d)))"

text \<open>
  \<^verbatim>\<open>LogoutView.post\<close>. The framework's \<^verbatim>\<open>logout(request)\<close> flushes the framework
  session, which is no table of this store. The whole body of the view is inside
  \<^verbatim>\<open>try\<close>: an exception of \<^verbatim>\<open>request.data.get\<close>, and every exception of the
  lookup other than \<^verbatim>\<open>DoesNotExist\<close>, reaches the outer handler, which answers 400
  with the message \<^verbatim>\<open>"Logout failed: "\<close> followed by \<^verbatim>\<open>str(e)\<close>. The text of an
  exception is the framework's: \<open>str\<close> is an argument of the view.
\<close>

definition Logout_failed :: "(exn \<Rightarrow> string) \<Rightarrow> exn \<Rightarrow> response" where
  "Logout_failed str e = Response (Message (''Logout failed: '' @ str e)) HTTP_400_BAD_REQUEST"

definition LogoutView_post ::
  "(exn \<Rightarrow> string) \<Rightarrow> db \<Rightarrow> datetime \<Rightarrow> request \<Rightarrow> response \<times> db" where
  "LogoutView_post str d now request =
     (case data_get_session_token request of
        Inl e \<Rightarrow> (Logout_failed str e, d)
      | Inr v \<Rightarrow>
          (let session_token = py_or v (headers_Authorization request) in
           if truthy session_token then
             (case objects_get (User_objects d) (live_session session_token now) of
                Inr user \<Rightarrow>
                  (Response (Message ''Successfully logged out.'') HTTP_200_OK,
                   user_save (user\<lparr>session_token := None, session_expiry := None\<rparr>) d)
              | Inl DoesNotExist \<Rightarrow>
                  (Response (Message ''Successfully logged out.'') HTTP_200_OK, d)
              | Inl e \<Rightarrow> (Logout_failed str e, d))
           else (Response (Message ''Successfully logged out.'') HTTP_200_OK, d)))"


section \<open>What the view module imports from files that are not part of this development\<close>

text \<open>
  \<^verbatim>\<open>models.py\<close> and \<^verbatim>\<open>serializers.py\<close> are imported by the views. What the views
  need from them is a parameter of every view that uses it: the column defaults of a new
  profile row and of a new settings row, and the verdict of \<^verbatim>\<open>is_valid()\<close> of the two
  serializers on the request data (which may consult the store).
\<close>

record register_data =
  data_phone_number :: "string option"
  data_first_name :: "string option"
  data_last_name :: "string option"
  data_email :: "string option"

text \<open>
  The body of an auto-reply PUT, with the dates as the serializer hands them to the view
  in \<^verbatim>\<open>validated_data\<close>: \<open>None\<close> is a key that \<^verbatim>\<open>validated_data.get\<close> does not find.
\<close>

record auto_reply_data =
  data_auto_reply_enabled :: "bool option"
  data_auto_reply_message :: "string option"
  data_auto_reply_start_date :: "datetime option"
  data_auto_reply_end_date :: "datetime option"

record imported =
  UserProfile_defaults :: user_profile
  UserSettings_defaults :: user_settings
  UserRegisterSerializer_is_valid :: "db \<Rightarrow> register_data \<Rightarrow> bool"
  AutoReplySettingsSerializer_is_valid :: "user_settings \<Rightarrow> auto_reply_data \<Rightarrow> bool"

section \<open>Registration\<close>

text \<open>\<^verbatim>\<open>validate_phone_number\<close>: \<^verbatim>\<open>not phone_number\<close> holds for \<^verbatim>\<open>None\<close> and for the empty string.\<close>

definition validate_phone_number :: "string option \<Rightarrow> exn + unit" where
  "validate_phone_number phone =
     (case phone of
        None \<Rightarrow> Inl (ValidationError ''Invalid phone number'')
      | Some p \<Rightarrow>
          if p = [] \<or> length p < 10 \<or> length p > 15
          then Inl (ValidationError ''Invalid phone number'')
          else Inr ())"

text \<open>The store gives a new user row a primary key that no user row has.\<close>

definition new_user_id :: "db \<Rightarrow> nat" where
  "new_user_id d = Suc (foldr max (map user_id (User_objects d)) 0)"

text \<open>
  Modelled from the spec: \<^verbatim>\<open>UserRegisterSerializer.save()\<close> (in \<^verbatim>\<open>serializers.py\<close>)
  creates the User record from the registration data, with no session. The password hash
  is a column no view below reads; it is left out of the row.
\<close>

definition UserRegisterSerializer_save :: "register_data \<Rightarrow> db \<Rightarrow> user \<times> db" where
  "UserRegisterSerializer_save dat d =
     (let u = \<lparr>user_id = new_user_id d,
               phone_number = (case data_phone_number dat of None \<Rightarrow> [] | Some p \<Rightarrow> p),
               first_name = data_first_name dat,
               last_name = data_last_name dat,
               user_email = data_email dat,
               session_token = None,
               session_expiry = None\<rparr>
      in (u, d\<lparr>User_objects := User_objects d @ [u]\<rparr>))"

definition UserProfile_objects_create :: "imported \<Rightarrow> nat \<Rightarrow> db \<Rightarrow> user_profile \<times> db" where
  "UserProfile_objects_create m uid d =
     (let p = (UserProfile_defaults m)\<lparr>profile_user := uid\<rparr>
      in (p, d\<lparr>UserProfile_objects := UserProfile_objects d @ [p]\<rparr>))"

definition UserSettings_objects_create :: "imported \<Rightarrow> nat \<Rightarrow> db \<Rightarrow> user_settings \<times> db" where
  "UserSettings_objects_create m uid d =
     (let s = (UserSettings_defaults m)\<lparr>settings_user := uid\<rparr>
      in (s, d\<lparr>UserSettings_objects := UserSettings_objects d @ [s]\<rparr>))"

definition Label_objects_create :: "nat \<Rightarrow> string \<times> string \<Rightarrow> db \<Rightarrow> db" where
  "Label_objects_create uid label_data d =
     d\<lparr>Label_objects := Label_objects d @
        [\<lparr>label_user = uid, label_name = fst label_data, label_color = snd label_data\<rparr>]\<rparr>"

definition default_labels :: "(string \<times> string) list" where
  "default_labels =
     [(''Important'', ''#FF0000''), (''Personal'', ''#00FF00''), (''Work'', ''#0000FF'')]"

text \<open>The loop \<^verbatim>\<open>for label_data in default_labels\<close>.\<close>

fun create_labels :: "nat \<Rightarrow> (string \<times> string) list \<Rightarrow> db \<Rightarrow> db" where
  "create_labels uid [] d = d"
| "create_labels uid (label_data # rest) d = create_labels uid rest (Label_objects_create uid label_data d)"

text \<open>
  \<^verbatim>\<open>RegisterView.post\<close>. The framework's \<^verbatim>\<open>login(request, user)\<close> writes the framework
  session, which is no table of this store. The rows are created one after the other,
  with no transaction around them; none of the creations raises here, so the outer
  handler of \<^verbatim>\<open>ValidationError\<close> has no branch.
\<close>

definition RegisterView_post :: "imported \<Rightarrow> db \<Rightarrow> register_data \<Rightarrow> response \<times> db" where
  "RegisterView_post m d dat =
     (if UserRegisterSerializer_is_valid m d dat then
        (case validate_phone_number (data_phone_number dat) of
           Inl e \<Rightarrow> (Response (Error ''Invalid phone number format'') HTTP_400_BAD_REQUEST, d)
         | Inr ok \<Rightarrow>
             if \<exists>u \<in> set (User_objects d). Some (phone_number u) = data_phone_number dat
             then (Response (Error ''Phone number already registered.'') HTTP_400_BAD_REQUEST, d)
             else
               (let (user, d1) = UserRegisterSerializer_save dat d;
                    (profile, d2) = UserProfile_objects_create m (user_id user) d1;
                    (settings, d3) = UserSettings_objects_create m (user_id user) d2;
                    d4 = create_labels (user_id user) default_labels d3
                in (Response (UserData user) HTTP_201_CREATED, d4)))
      else (Response SerializerErrors HTTP_400_BAD_REQUEST, d))"

section \<open>Auto-reply settings\<close>

text \<open>
  \<^verbatim>\<open>UserSettings.objects.get_or_create(user=request.user)\<close>: the row of the user, a new
  row with the column defaults when there is none; the lookup raises when there are several.
\<close>

definition UserSettings_get_or_create :: "imported \<Rightarrow> nat \<Rightarrow> db \<Rightarrow> (exn + user_settings) \<times> db" where
  "UserSettings_get_or_create m uid d =
     (case objects_get (UserSettings_objects d) (\<lambda>s. settings_user s = uid) of
        Inr s \<Rightarrow> (Inr s, d)
      | Inl DoesNotExist \<Rightarrow>
          (let (s, d1) = UserSettings_objects_create m uid d in (Inr s, d1))
      | Inl e \<Rightarrow> (Inl e, d))"

text \<open>
  \<^verbatim>\<open>user_settings.save()\<close>. The row came from \<^verbatim>\<open>get_or_create(user=...)\<close>, so it is
  the one row of its user, and the user identifies it.
\<close>

definition settings_save :: "user_settings \<Rightarrow> db \<Rightarrow> db" where
  "settings_save s d =
     d\<lparr>UserSettings_objects :=
         map (\<lambda>r. if settings_user r = settings_user s then s else r) (UserSettings_objects d)\<rparr>"

text \<open>
  Modelled from the spec: \<^verbatim>\<open>AutoReplySettingsSerializer.save()\<close> with \<^verbatim>\<open>partial=True\<close>
  (in \<^verbatim>\<open>serializers.py\<close>) is a partial update: every supplied field replaces the field
  of the row, the other fields stay.
\<close>

definition partial_update :: "auto_reply_data \<Rightarrow> user_settings \<Rightarrow> user_settings" where
  "partial_update dat s =
     s\<lparr>auto_reply_enabled :=
         (case data_auto_reply_enabled dat of None \<Rightarrow> auto_reply_enabled s | Some b \<Rightarrow> b),
       auto_reply_message :=
         (case data_auto_reply_message dat of None \<Rightarrow> auto_reply_message s | Some t \<Rightarrow> Some t),
       auto_reply_start_date :=
         (case data_auto_reply_start_date dat of None \<Rightarrow> auto_reply_start_date s | Some t \<Rightarrow> Some t),
       auto_reply_end_date :=
         (case data_auto_reply_end_date dat of None \<Rightarrow> auto_reply_end_date s | Some t \<Rightarrow> Some t)\<rparr>"

text \<open>
  The test \<^verbatim>\<open>start_date and end_date and start_date > end_date\<close>; a date-time object
  is always truthy.
\<close>

definition start_after_end :: "datetime option \<Rightarrow> datetime option \<Rightarrow> bool" where
  "start_after_end start_date end_date =
     (case start_date of
        None \<Rightarrow> False
      | Some s \<Rightarrow> (case end_date of None \<Rightarrow> False | Some e \<Rightarrow> s > e))"

text \<open>\<^verbatim>\<open>AutoReplySettingsView.put\<close> for the authenticated user \<open>uid\<close>.\<close>

definition AutoReplySettingsView_put :: "imported \<Rightarrow> db \<Rightarrow> nat \<Rightarrow> auto_reply_data \<Rightarrow> response \<times> db" where
  "AutoReplySettingsView_put m d uid dat =
     (case UserSettings_get_or_create m uid d of
        (Inl e, d1) \<Rightarrow>
          (Response (Error ''Unable to update auto-reply settings'') HTTP_500_INTERNAL_SERVER_ERROR, d1)
      | (Inr user_settings, d1) \<Rightarrow>
          if AutoReplySettingsSerializer_is_valid m user_settings dat then
            (let start_date = data_auto_reply_start_date dat;
                 end_date = data_auto_reply_end_date dat
             in if start_after_end start_date end_date
                then (Response (Error ''Start date must be before end date'') HTTP_400_BAD_REQUEST, d1)
                else (let saved = partial_update dat user_settings
                      in (Response (AutoReplyData saved) HTTP_200_OK, settings_save saved d1)))
          else (Response SerializerErrors HTTP_400_BAD_REQUEST, d1))"

text \<open>
  \<^verbatim>\<open>AutoReplySettingsView.patch\<close>. The view reads the clock once for the start date
  and once more for the end date: \<open>now1\<close> and \<open>now2\<close> are what the two calls return.
\<close>

definition AutoReplySettingsView_patch :: "imported \<Rightarrow> db \<Rightarrow> datetime \<Rightarrow> datetime \<Rightarrow> nat \<Rightarrow> response \<times> db" where
  "AutoReplySettingsView_patch m d now1 now2 uid =
     (case UserSettings_get_or_create m uid d of
        (Inl e, d1) \<Rightarrow>
          (Response (Error ''Unable to toggle auto-reply'') HTTP_500_INTERNAL_SERVER_ERROR, d1)
      | (Inr user_settings, d1) \<Rightarrow>
          (let s1 = user_settings\<lparr>auto_reply_enabled := \<not> auto_reply_enabled user_settings\<rparr>;
               s2 = (if auto_reply_enabled s1 \<and> auto_reply_start_date s1 = None
                     then s1\<lparr>auto_reply_start_date := Some now1\<rparr> else s1);
               s3 = (if auto_reply_enabled s2 \<and> auto_reply_end_date s2 = None
                     then s2\<lparr>auto_reply_end_date := Some (now2 + timedelta_days 30)\<rparr> else s2)
           in (Response (AutoReplyData s3) HTTP_200_OK, settings_save s3 d1)))"

section \<open>Email search\<close>

text \<open>The query parameters; \<^verbatim>\<open>params.get\<close> gives \<^verbatim>\<open>None\<close> or a string.\<close>

record query_params =
  param_search :: "string option"
  param_start_date :: "string option"
  param_end_date :: "string option"
  param_status :: "string option"
  param_label :: "string option"
  param_has_attachments :: "string option"

text \<open>
  A query set is the list of the rows the query yields, with the multiplicity the joins
  give them; the order of the rows is not fixed by the view. A condition on the
  many-to-many table \<^verbatim>\<open>recipients\<close> inside a disjunction joins that table by a left
  outer join: one joined row for each recipient, and one with a null recipient for an
  email that has none.
\<close>

definition left_outer_join :: "'a list \<Rightarrow> 'a option list" where
  "left_outer_join rs = (if rs = [] then [None] else map Some rs)"

text \<open>\<^verbatim>\<open>Email.objects.filter(Q(recipients=user) | Q(sender=user))\<close>\<close>

definition recipient_or_sender :: "db \<Rightarrow> nat \<Rightarrow> email list" where
  "recipient_or_sender d u =
     [e. e \<leftarrow> Email_objects d, r \<leftarrow> left_outer_join (recipients e), r = Some u \<or> sender e = u]"

text \<open>\<^verbatim>\<open>.exclude(is_trashed=True)\<close>\<close>

definition exclude_trashed :: "email list \<Rightarrow> email list" where
  "exclude_trashed queryset = filter (\<lambda>e. \<not> is_trashed e) queryset"

text \<open>
  \<^verbatim>\<open>.filter(sent_at__range=[start_date, end_date])\<close>: the ORM converts both strings to
  the column's type (\<open>to_python\<close>, which the framework owns) and raises
  \<^verbatim>\<open>ValidationError\<close> for a string that is no date; the range includes both ends.
\<close>

definition filter_sent_at_range ::
  "(string \<Rightarrow> datetime option) \<Rightarrow> string \<Rightarrow> string \<Rightarrow> email list \<Rightarrow> exn + email list" where
  "filter_sent_at_range to_python start_date end_date queryset =
     (case to_python start_date of
        None \<Rightarrow> Inl (ValidationError start_date)
      | Some a \<Rightarrow>
          (case to_python end_date of
             None \<Rightarrow> Inl (ValidationError end_date)
           | Some b \<Rightarrow> Inr (filter (\<lambda>e. a \<le> sent_at e \<and> sent_at e \<le> b) queryset)))"

definition filter_date_range ::
  "(string \<Rightarrow> datetime option) \<Rightarrow> query_params \<Rightarrow> email list \<Rightarrow> exn + email list" where
  "filter_date_range to_python params queryset =
     (case (param_start_date params, param_end_date params) of
        (Some start_date, Some end_date) \<Rightarrow>
          if start_date \<noteq> [] \<and> end_date \<noteq> []
          then filter_sent_at_range to_python start_date end_date queryset
          else Inr queryset
      | _ \<Rightarrow> Inr queryset)"

definition filter_status :: "query_params \<Rightarrow> email list \<Rightarrow> email list" where
  "filter_status params queryset =
     (let st = param_status params in
      if truthy st then
        (if st = Some ''unread'' then filter (\<lambda>e. \<not> is_read e) queryset
         else if st = Some ''starred'' then filter (\<lambda>e. is_starred e) queryset
         else queryset)
      else queryset)"

text \<open>\<^verbatim>\<open>.filter(labels__name=label)\<close> joins the labels of an email: one row for each label of that name.\<close>

definition filter_label :: "query_params \<Rightarrow> email list \<Rightarrow> email list" where
  "filter_label params queryset =
     (case param_label params of
        None \<Rightarrow> queryset
      | Some name \<Rightarrow>
          if name \<noteq> [] then [e. e \<leftarrow> queryset, l \<leftarrow> email_labels e, l = name]
          else queryset)"

text \<open>
  \<^verbatim>\<open>.filter(attachments__isnull=False)\<close> joins the attachments: one row for each
  attachment of an email; \<^verbatim>\<open>.distinct()\<close> keeps one of equal rows.
\<close>

definition attachments_isnull_False :: "email list \<Rightarrow> email list" where
  "attachments_isnull_False queryset = [e. e \<leftarrow> queryset, a \<leftarrow> attachments e]"

definition filter_has_attachments :: "query_params \<Rightarrow> email list \<Rightarrow> email list" where
  "filter_has_attachments params queryset =
     (let has_attachments = param_has_attachments params in
      if truthy has_attachments then remdups (attachments_isnull_False queryset)
      else queryset)"

text \<open>\<^verbatim>\<open>AdvancedEmailSearchView.get_queryset\<close> for the authenticated user.\<close>

definition get_queryset ::
  "(string \<Rightarrow> datetime option) \<Rightarrow> db \<Rightarrow> nat \<Rightarrow> query_params \<Rightarrow> exn + email list" where
  "get_queryset to_python d user params =
     (let queryset = exclude_trashed (recipient_or_sender d user) in
      case filter_date_range to_python params queryset of
        Inl e \<Rightarrow> Inl e
      | Inr queryset \<Rightarrow>
          Inr (filter_has_attachments params (filter_label params (filter_status params queryset))))"

text \<open>
  The view lists \<^verbatim>\<open>filter_queryset(get_queryset())\<close> with the framework's
  \<^verbatim>\<open>SearchFilter\<close> as its one filter backend: with a search string the rows that match
  it on the view's \<^verbatim>\<open>search_fields\<close> are kept (\<open>matches\<close>, which the framework
  owns), without one the query set stays as it is.
\<close>

definition search_filter :: "(string \<Rightarrow> email \<Rightarrow> bool) \<Rightarrow> query_params \<Rightarrow> email list \<Rightarrow> email list" where
  "search_filter matches params queryset =
     (case param_search params of
        None \<Rightarrow> queryset
      | Some terms \<Rightarrow> if terms \<noteq> [] then filter (matches terms) queryset else queryset)"

definition AdvancedEmailSearchView_list ::
  "(string \<Rightarrow> datetime option) \<Rightarrow> (string \<Rightarrow> email \<Rightarrow> bool) \<Rightarrow> db \<Rightarrow> nat \<Rightarrow> query_params
     \<Rightarrow> exn + email list" where
  "AdvancedEmailSearchView_list to_python matches d user params =
     (case get_queryset to_python d user params of
        Inl e \<Rightarrow> Inl e
      | Inr queryset \<Rightarrow> Inr (search_filter matches params queryset))"

section \<open>Two-factor setup\<close>

text \<open>
  \<^verbatim>\<open>str.isdigit\<close>: every character is a digit and there is at least one. Which
  characters are digits is a table of the language (the decimal digits of every script,
  superscript digits and others): \<open>digit\<close> is an argument, and the code may be a list
  of any type of characters.
\<close>

definition isdigit :: "('c \<Rightarrow> bool) \<Rightarrow> 'c list \<Rightarrow> bool" where
  "isdigit digit s = (s \<noteq> [] \<and> (\<forall>c \<in> set s. digit c))"

text \<open>\<^verbatim>\<open>verify_two_factor_code\<close>: \<^verbatim>\<open>len(None)\<close> raises \<^verbatim>\<open>TypeError\<close>.\<close>

definition verify_two_factor_code :: "('c \<Rightarrow> bool) \<Rightarrow> 'c list option \<Rightarrow> exn + bool" where
  "verify_two_factor_code digit code =
     (case code of
        None \<Rightarrow> Inl TypeError
      | Some c \<Rightarrow> Inr (length c = 6 \<and> isdigit digit c))"

definition profile_save :: "user_profile \<Rightarrow> db \<Rightarrow> db" where
  "profile_save p d =
     d\<lparr>UserProfile_objects :=
         map (\<lambda>r. if profile_user r = profile_user p then p else r) (UserProfile_objects d)\<rparr>"

text \<open>
  \<^verbatim>\<open>TwoFactorSetupView.put\<close> for the authenticated user \<open>uid\<close> and the value of
  \<^verbatim>\<open>request.data.get("verification_code")\<close>. The view catches nothing: an exception
  is the result. \<^verbatim>\<open>request.user.profile\<close> raises when the user has no profile row.
\<close>

definition TwoFactorSetupView_put ::
  "('c \<Rightarrow> bool) \<Rightarrow> db \<Rightarrow> nat \<Rightarrow> 'c list option \<Rightarrow> (exn + response) \<times> db" where
  "TwoFactorSetupView_put digit d uid code =
     (case objects_get (UserProfile_objects d) (\<lambda>p. profile_user p = uid) of
        Inl DoesNotExist \<Rightarrow> (Inl RelatedObjectDoesNotExist, d)
      | Inl e \<Rightarrow> (Inl e, d)
      | Inr profile \<Rightarrow>
          (case verify_two_factor_code digit code of
             Inl e \<Rightarrow> (Inl e, d)
           | Inr True \<Rightarrow>
               (Inr (Response (Message ''Two-factor authentication enabled'') HTTP_200_OK),
                profile_save (profile\<lparr>two_factor_enabled := True\<rparr>) d)
           | Inr False \<Rightarrow>
               (Inr (Response (Error ''Invalid verification code'') HTTP_400_BAD_REQUEST), d)))"

section \<open>Referential integrity\<close>

text \<open>
  Profile, settings and label rows hold a foreign key to the user table: the store keeps
  no such row whose user has no row.
\<close>

definition references_users :: "db \<Rightarrow> bool" where
  "references_users d =
     ((\<forall>p \<in> set (UserProfile_objects d). profile_user p \<in> user_id ` set (User_objects d)) \<and>
      (\<forall>s \<in> set (UserSettings_objects d). settings_user s \<in> user_id ` set (User_objects d)) \<and>
      (\<forall>l \<in> set (Label_objects d). label_user l \<in> user_id ` set (User_objects d)))"

section \<open>A small store\<close>

text \<open>
  Three users at time 600: Alice holds a session that runs until 1000, the session of
  Bob ended at 500, Carol is logged out. Their rows, mail and settings are the concrete
  inputs on which the theorems below are instantiated.
\<close>

definition alice :: user where
  "alice = \<lparr>user_id = 1, phone_number = ''15550001111'', first_name = Some ''Alice'',
            last_name = None, user_email = None,
            session_token = Some ''tok-a'', session_expiry = Some 1000\<rparr>"

definition bob :: user where
  "bob = \<lparr>user_id = 2, phone_number = ''15550002222'', first_name = Some ''Bob'',
          last_name = None, user_email = None,
          session_token = Some ''tok-b'', session_expiry = Some 500\<rparr>"

definition carol :: user where
  "carol = \<lparr>user_id = 3, phone_number = ''15550003333'', first_name = Some ''Carol'',
            last_name = None, user_email = None,
            session_token = None, session_expiry = None\<rparr>"

definition settings_off :: user_settings where
  "settings_off = \<lparr>settings_user = 1, auto_reply_enabled = False, auto_reply_message = None,
                   auto_reply_start_date = None, auto_reply_end_date = None, dark_mode = False\<rparr>"

definition mail1 :: email where
  "mail1 = \<lparr>email_id = 1, sender = 1, recipients = [2], subject = ''Report'', body = ''See files'',
            sent_at = 100, is_read = False, is_starred = False, is_trashed = False,
            email_labels = [''Work''], attachments = [10, 11]\<rparr>"

definition mail2 :: email where
  "mail2 = \<lparr>email_id = 2, sender = 2, recipients = [1], subject = ''Old'', body = ''Gone'',
            sent_at = 200, is_read = True, is_starred = False, is_trashed = True,
            email_labels = [], attachments = [12]\<rparr>"

definition mail3 :: email where
  "mail3 = \<lparr>email_id = 3, sender = 3, recipients = [2], subject = ''Other'', body = ''Not for Alice'',
            sent_at = 300, is_read = False, is_starred = False, is_trashed = False,
            email_labels = [], attachments = [13]\<rparr>"

definition mail4 :: email where
  "mail4 = \<lparr>email_id = 4, sender = 2, recipients = [1, 3], subject = ''Lunch'', body = ''Noon'',
            sent_at = 400, is_read = True, is_starred = True, is_trashed = False,
            email_labels = [], attachments = []\<rparr>"

definition store0 :: db where
  "store0 = \<lparr>User_objects = [alice, bob, carol],
             UserProfile_objects = [\<lparr>profile_user = 1, two_factor_enabled = False\<rparr>],
             UserSettings_objects = [settings_off],
             Label_objects = [\<lparr>label_user = 1, label_name = ''Work'', label_color = ''#0000FF''\<rparr>],
             Email_objects = [mail1, mail2, mail3, mail4]\<rparr>"

definition bearer :: "string option \<Rightarrow> request" where
  "bearer tok = \<lparr>headers_Authorization = tok, data = Mapping None\<rparr>"

definition posted :: "string option \<Rightarrow> request" where
  "posted tok = \<lparr>headers_Authorization = None, data = Mapping tok\<rparr>"

text \<open>A request whose body is the JSON list \<^verbatim>\<open>[]\<close>, with the token of Alice in the header.\<close>

definition list_body :: request where
  "list_body = \<lparr>headers_Authorization = Some ''tok-a'', data = NotMapping\<rparr>"

text \<open>The store in which the row of Bob holds the token of Alice as well, with a live expiry.\<close>

definition store_shared_token :: db where
  "store_shared_token =
     store0\<lparr>User_objects :=
       [alice, bob\<lparr>session_token := Some ''tok-a'', session_expiry := Some 900\<rparr>, carol]\<rparr>"

text \<open>
  Short texts in the place of the framework's texts of exceptions, and the characters
  below U+0100 that \<^verbatim>\<open>str.isdigit\<close> takes as digits: 0 to 9 and the superscripts
  1, 2 and 3.
\<close>

definition exn_text :: "exn \<Rightarrow> string" where
  "exn_text e =
     (case e of
        AttributeError \<Rightarrow> ''list object has no attribute get''
      | MultipleObjectsReturned \<Rightarrow> ''get() returned more than one User''
      | ParseError \<Rightarrow> ''JSON parse error''
      | _ \<Rightarrow> ''error'')"

definition latin1_digit :: "char \<Rightarrow> bool" where
  "latin1_digit c = (c \<in> set ''0123456789'' \<or> c \<in> {CHR 0xB2, CHR 0xB3, CHR 0xB9})"

definition declared :: imported where
  "declared = \<lparr>UserProfile_defaults = \<lparr>profile_user = 0, two_factor_enabled = False\<rparr>,
               UserSettings_defaults = settings_off\<lparr>settings_user := 0\<rparr>,
               UserRegisterSerializer_is_valid = (\<lambda>d dat. True),
               AutoReplySettingsSerializer_is_valid = (\<lambda>s dat. True)\<rparr>"

definition signup :: register_data where
  "signup = \<lparr>data_phone_number = Some ''15550004444'', data_first_name = Some ''Dan'',
             data_last_name = None, data_email = None\<rparr>"

definition away :: auto_reply_data where
  "away = \<lparr>data_auto_reply_enabled = None, data_auto_reply_message = Some ''Back soon'',
           data_auto_reply_start_date = Some 700, data_auto_reply_end_date = Some 700\<rparr>"

definition query :: query_params where
  "query = \<lparr>param_search = None, param_start_date = None, param_end_date = None,
            param_status = None, param_label = None, param_has_attachments = None\<rparr>"

lemmas store0_defs =
  store0_def alice_def bob_def carol_def settings_off_def mail1_def mail2_def mail3_def mail4_def
  bearer_def posted_def declared_def signup_def away_def query_def
  list_body_def store_shared_token_def exn_text_def data_get_session_token_def

section \<open>Lookup and session lemmas\<close>

lemma objects_get_Inr: "objects_get rows cond = Inr r \<longleftrightarrow> filter cond rows = [r]"
  by (auto simp: objects_get_def split: list.splits)

lemma objects_get_DoesNotExist: "objects_get rows cond = Inl DoesNotExist \<longleftrightarrow> filter cond rows = []"
  by (auto simp: objects_get_def split: list.splits)

lemma objects_get_Inl:
  "objects_get rows cond = Inl e \<Longrightarrow> e = DoesNotExist \<or> e = MultipleObjectsReturned"
  by (auto simp: objects_get_def split: list.splits)

lemma authenticate_db: "snd (authenticate d now request) = d"
  by (auto simp: authenticate_def Let_def split: sum.splits exn.splits)

lemma authenticate_anonymous:
  "\<not> truthy (headers_Authorization request) \<Longrightarrow> fst (authenticate d now request) = Inr None"
  by (simp add: authenticate_def)

lemma authenticate_user:
  assumes "truthy (headers_Authorization request)"
    and "filter (live_session (headers_Authorization request) now) (User_objects d) = [u]"
  shows "fst (authenticate d now request) = Inr (Some u)"
  using assms by (simp add: authenticate_def objects_get_def)

lemma authenticate_failed:
  assumes "truthy (headers_Authorization request)"
    and "\<forall>u \<in> set (User_objects d). \<not> live_session (headers_Authorization request) now u"
  shows "fst (authenticate d now request) = Inl (AuthenticationFailed ''Invalid or expired token'')"
proof -
  from assms(2) have "filter (live_session (headers_Authorization request) now) (User_objects d) = []"
    by (simp add: filter_empty_conv)
  with assms(1) show ?thesis
    by (simp add: authenticate_def objects_get_def)
qed

lemma authenticate_returns:
  assumes "fst (authenticate d now request) = Inr (Some u)"
  shows "u \<in> set (User_objects d) \<and> session_token u = headers_Authorization request
            \<and> (\<exists>e. session_expiry u = Some e \<and> now < e)"
proof -
  from assms
  have "objects_get (User_objects d) (live_session (headers_Authorization request) now) = Inr u"
    by (auto simp: authenticate_def Let_def split: if_splits sum.splits exn.splits)
  then have "filter (live_session (headers_Authorization request) now) (User_objects d) = [u]"
    by (simp add: objects_get_Inr)
  then have "u \<in> set (filter (live_session (headers_Authorization request) now) (User_objects d))"
    by simp
  then show ?thesis
    by (auto simp: live_session_def split: option.splits)
qed

section \<open>Session authentication\<close>

text \<open>
  Claim C1. \<^verbatim>\<open>SessionTokenAuthentication.authenticate\<close> never changes the store. Without
  an \<^verbatim>\<open>Authorization\<close> header it returns \<^verbatim>\<open>None\<close>, the anonymous caller. With a
  token in the header it returns the user when exactly one user row holds that token with an
  expiry strictly after the current time, and raises \<^verbatim>\<open>AuthenticationFailed\<close> when no
  row does. A user it returns is a row of the table whose token is the header value and
  whose expiry is strictly later than now.
\<close>

theorem authenticate_session:
  "snd (authenticate d now request) = d
   \<and> (headers_Authorization request = None \<longrightarrow> fst (authenticate d now request) = Inr None)
   \<and> (\<forall>t u. headers_Authorization request = Some t \<and> t \<noteq> []
          \<and> filter (live_session (Some t) now) (User_objects d) = [u]
        \<longrightarrow> fst (authenticate d now request) = Inr (Some u))
   \<and> (\<forall>t. headers_Authorization request = Some t \<and> t \<noteq> []
          \<and> (\<forall>u \<in> set (User_objects d). \<not> live_session (Some t) now u)
        \<longrightarrow> fst (authenticate d now request) = Inl (AuthenticationFailed ''Invalid or expired token''))
   \<and> (\<forall>u. fst (authenticate d now request) = Inr (Some u)
        \<longrightarrow> u \<in> set (User_objects d) \<and> session_token u = headers_Authorization request
            \<and> (\<exists>e. session_expiry u = Some e \<and> now < e))"
proof -
  have a: "snd (authenticate d now request) = d"
    by (rule authenticate_db)
  have b: "headers_Authorization request = None \<longrightarrow> fst (authenticate d now request) = Inr None"
    by (simp add: authenticate_anonymous truthy_def)
  have c: "\<forall>t u. headers_Authorization request = Some t \<and> t \<noteq> []
          \<and> filter (live_session (Some t) now) (User_objects d) = [u]
        \<longrightarrow> fst (authenticate d now request) = Inr (Some u)"
  proof (intro allI impI)
    fix t u
    assume h: "headers_Authorization request = Some t \<and> t \<noteq> []
          \<and> filter (live_session (Some t) now) (User_objects d) = [u]"
    then have "truthy (headers_Authorization request)"
      by (simp add: truthy_def)
    moreover from h
    have "filter (live_session (headers_Authorization request) now) (User_objects d) = [u]"
      by simp
    ultimately show "fst (authenticate d now request) = Inr (Some u)"
      by (rule authenticate_user)
  qed
  have e: "\<forall>t. headers_Authorization request = Some t \<and> t \<noteq> []
          \<and> (\<forall>u \<in> set (User_objects d). \<not> live_session (Some t) now u)
        \<longrightarrow> fst (authenticate d now request) = Inl (AuthenticationFailed ''Invalid or expired token'')"
  proof (intro allI impI)
    fix t
    assume h: "headers_Authorization request = Some t \<and> t \<noteq> []
          \<and> (\<forall>u \<in> set (User_objects d). \<not> live_session (Some t) now u)"
    then have "truthy (headers_Authorization request)"
      by (simp add: truthy_def)
    moreover from h
    have "\<forall>u \<in> set (User_objects d). \<not> live_session (headers_Authorization request) now u"
      by simp
    ultimately
    show "fst (authenticate d now request) = Inl (AuthenticationFailed ''Invalid or expired token'')"
      by (rule authenticate_failed)
  qed
  have f: "\<forall>u. fst (authenticate d now request) = Inr (Some u)
        \<longrightarrow> u \<in> set (User_objects d) \<and> session_token u = headers_Authorization request
            \<and> (\<exists>e. session_expiry u = Some e \<and> now < e)"
    by (intro allI impI) (rule authenticate_returns)
  show ?thesis
    by (intro conjI a b c e f)
qed

theorem authenticate_session_witness:
  "filter (live_session (Some ''tok-a'') 600) (User_objects store0) = [alice]
   \<and> fst (authenticate store0 600 (bearer (Some ''tok-a''))) = Inr (Some alice)
   \<and> filter (live_session (Some ''tok-b'') 600) (User_objects store0) = []
   \<and> fst (authenticate store0 600 (bearer (Some ''tok-b''))) =
       Inl (AuthenticationFailed ''Invalid or expired token'')
   \<and> fst (authenticate store0 600 (bearer None)) = Inr None
   \<and> snd (authenticate store0 600 (bearer (Some ''tok-b''))) = store0"
  using authenticate_session [of store0 600 "bearer (Some ''tok-a'')"]
    authenticate_session [of store0 600 "bearer (Some ''tok-b'')"]
    authenticate_session [of store0 600 "bearer None"]
  by (simp add: store0_defs live_session_def)

section \<open>Logout\<close>

lemma live_session_earlier:
  "now \<le> now' \<Longrightarrow> live_session tok now' u \<Longrightarrow> live_session tok now u"
  by (auto simp: live_session_def split: option.splits)

lemma user_save_existing:
  assumes "u0 \<in> set (User_objects d)" and "user_id u0 = user_id u"
  shows "user_save u d =
           d\<lparr>User_objects := map (\<lambda>r. if user_id r = user_id u then u else r) (User_objects d)\<rparr>"
  using assms by (auto simp: user_save_def)

lemma logout_no_token:
  assumes "data request = Mapping v"
    and "\<not> truthy (py_or v (headers_Authorization request))"
  shows "LogoutView_post str d now request =
           (Response (Message ''Successfully logged out.'') HTTP_200_OK, d)"
  using assms by (simp add: LogoutView_post_def data_get_session_token_def Let_def)

lemma logout_no_session:
  assumes "data request = Mapping v"
    and "filter (live_session (py_or v (headers_Authorization request)) now) (User_objects d) = []"
  shows "LogoutView_post str d now request =
           (Response (Message ''Successfully logged out.'') HTTP_200_OK, d)"
  using assms
  by (simp add: LogoutView_post_def data_get_session_token_def objects_get_def Let_def)

lemma logout_live_session:
  assumes "data request = Mapping v"
    and "truthy (py_or v (headers_Authorization request))"
    and "filter (live_session (py_or v (headers_Authorization request)) now) (User_objects d) = [u]"
  shows "LogoutView_post str d now request =
           (Response (Message ''Successfully logged out.'') HTTP_200_OK,
            d\<lparr>User_objects :=
                 map (\<lambda>r. if user_id r = user_id u
                          then u\<lparr>session_token := None, session_expiry := None\<rparr> else r)
                   (User_objects d)\<rparr>)"
proof -
  from assms(3) have "u \<in> set (filter (live_session (py_or v (headers_Authorization request)) now)
      (User_objects d))"
    by simp
  then have "u \<in> set (User_objects d)"
    by simp
  then have "user_save (u\<lparr>session_token := None, session_expiry := None\<rparr>) d =
      d\<lparr>User_objects :=
           map (\<lambda>r. if user_id r = user_id u
                    then u\<lparr>session_token := None, session_expiry := None\<rparr> else r)
             (User_objects d)\<rparr>"
    using user_save_existing [of u d "u\<lparr>session_token := None, session_expiry := None\<rparr>"]
    by simp
  with assms show ?thesis
    by (simp add: LogoutView_post_def data_get_session_token_def objects_get_def Let_def)
qed

lemma logout_data_raises:
  assumes "data_get_session_token request = Inl e"
  shows "LogoutView_post str d now request = (Logout_failed str e, d)"
  using assms by (simp add: LogoutView_post_def)

lemma logout_several_sessions:
  assumes "data request = Mapping v"
    and "truthy (py_or v (headers_Authorization request))"
    and "2 \<le> length (filter (live_session (py_or v (headers_Authorization request)) now)
           (User_objects d))"
  shows "LogoutView_post str d now request = (Logout_failed str MultipleObjectsReturned, d)"
proof -
  from assms(3) obtain a b rest where
    "filter (live_session (py_or v (headers_Authorization request)) now) (User_objects d)
       = a # b # rest"
    by (cases "filter (live_session (py_or v (headers_Authorization request)) now) (User_objects d)";
        simp; rename_tac a as; case_tac as; simp)
  with assms(1,2) show ?thesis
    by (simp add: LogoutView_post_def data_get_session_token_def objects_get_def Let_def)
qed

lemma cleared_not_live:
  assumes "filter (live_session (Some t) now) rows = [u]" and "now \<le> now'"
  shows "filter (live_session (Some t) now')
           (map (\<lambda>r. if user_id r = user_id u
                     then u\<lparr>session_token := None, session_expiry := None\<rparr> else r) rows) = []"
proof -
  have "\<not> live_session (Some t) now'
          (if user_id r = user_id u then u\<lparr>session_token := None, session_expiry := None\<rparr> else r)"
    if r: "r \<in> set rows" for r
  proof (cases "user_id r = user_id u")
    case True
    then show ?thesis by (simp add: live_session_def)
  next
    case False
    have "\<not> live_session (Some t) now' r"
    proof
      assume "live_session (Some t) now' r"
      with assms(2) have "live_session (Some t) now r"
        by (rule live_session_earlier)
      with r have "r \<in> set (filter (live_session (Some t) now) rows)"
        by simp
      with assms(1) have "r = u" by simp
      with False show False by simp
    qed
    with False show ?thesis by simp
  qed
  then have "\<forall>r \<in> set rows. \<not> (live_session (Some t) now' \<circ>
      (\<lambda>r. if user_id r = user_id u
            then u\<lparr>session_token := None, session_expiry := None\<rparr> else r)) r"
    by simp
  then have "filter (live_session (Some t) now' \<circ>
      (\<lambda>r. if user_id r = user_id u
            then u\<lparr>session_token := None, session_expiry := None\<rparr> else r)) rows = []"
    by (simp only: filter_empty_conv)
  then show ?thesis
    by (simp only: filter_map list.map)
qed




text \<open>
  Claim C3, as the view has it. A logout request whose body is a mapping, so that the view
  can read the token, is answered with 200 when the token is absent, or held by no user
  row, or held only with an expiry that has passed, or the token of one live session; and
  repeating the same request afterwards is answered with 200 again and leaves the store as
  the first logout left it. The token, when the request has one, is not held by two rows
  with a live expiry.
\<close>

theorem logout_succeeds_when_token_readable:
  assumes "data request = Mapping v"
    and "truthy (py_or v (headers_Authorization request)) \<Longrightarrow>
           length (filter (live_session (py_or v (headers_Authorization request)) now)
             (User_objects d)) \<le> 1"
  shows "fst (LogoutView_post str d now request) =
           Response (Message ''Successfully logged out.'') HTTP_200_OK
    \<and> (now \<le> now' \<longrightarrow>
         LogoutView_post str (snd (LogoutView_post str d now request)) now' request =
           (Response (Message ''Successfully logged out.'') HTTP_200_OK,
            snd (LogoutView_post str d now request)))"
proof -
  let ?tok = "py_or v (headers_Authorization request)"
  let ?ok = "Response (Message ''Successfully logged out.'') HTTP_200_OK"
  consider (none) "\<not> truthy ?tok"
    | (no_session) "filter (live_session ?tok now) (User_objects d) = []"
    | (session) u where "truthy ?tok" "filter (live_session ?tok now) (User_objects d) = [u]"
    using assms(2)
    by (cases "truthy ?tok"; cases "filter (live_session ?tok now) (User_objects d)")
      (auto simp: Suc_le_eq)
  then show ?thesis
  proof cases
    case none
    with assms(1) show ?thesis by (simp add: logout_no_token)
  next
    case no_session
    with assms(1) have first: "LogoutView_post str d now request = (?ok, d)"
      by (rule logout_no_session)
    have "filter (live_session ?tok now') (User_objects d) = []" if "now \<le> now'"
    proof -
      have "\<not> live_session ?tok now' r" if "r \<in> set (User_objects d)" for r
      proof
        assume "live_session ?tok now' r"
        with \<open>now \<le> now'\<close> have "live_session ?tok now r"
          by (rule live_session_earlier)
        with that have "r \<in> set (filter (live_session ?tok now) (User_objects d))"
          by simp
        with no_session show False by simp
      qed
      then show ?thesis by (simp add: filter_empty_conv)
    qed
    with assms(1) have "now \<le> now' \<longrightarrow> LogoutView_post str d now' request = (?ok, d)"
      by (simp add: logout_no_session)
    with first show ?thesis by simp
  next
    case session
    let ?cleared = "\<lambda>r. if user_id r = user_id u
                       then u\<lparr>session_token := None, session_expiry := None\<rparr> else r"
    from session obtain t where t: "?tok = Some t"
      by (auto simp: truthy_def split: option.splits)
    have first: "LogoutView_post str d now request =
        (?ok, d\<lparr>User_objects := map ?cleared (User_objects d)\<rparr>)"
      using assms(1) session by (rule logout_live_session)
    have "filter (live_session ?tok now') (map ?cleared (User_objects d)) = []" if "now \<le> now'"
      using session(2) that unfolding t by (rule cleared_not_live)
    with assms(1) have "now \<le> now' \<longrightarrow>
        LogoutView_post str (d\<lparr>User_objects := map ?cleared (User_objects d)\<rparr>) now' request =
          (?ok, d\<lparr>User_objects := map ?cleared (User_objects d)\<rparr>)"
      by (simp add: logout_no_session)
    with first show ?thesis by simp
  qed
qed

theorem logout_succeeds_when_token_readable_witness:
  "data (posted None) = Mapping None
   \<and> length (filter (live_session (py_or None (headers_Authorization (posted None))) 600)
        (User_objects store0)) \<le> 1
   \<and> fst (LogoutView_post exn_text store0 600 (posted None)) =
       Response (Message ''Successfully logged out.'') HTTP_200_OK
   \<and> fst (LogoutView_post exn_text store0 600 (posted (Some ''unknown''))) =
       Response (Message ''Successfully logged out.'') HTTP_200_OK
   \<and> fst (LogoutView_post exn_text store0 600 (posted (Some ''tok-b''))) =
       Response (Message ''Successfully logged out.'') HTTP_200_OK
   \<and> LogoutView_post exn_text (snd (LogoutView_post exn_text store0 600 (posted (Some ''tok-a'')))) 700
        (posted (Some ''tok-a'')) =
       (Response (Message ''Successfully logged out.'') HTTP_200_OK,
        snd (LogoutView_post exn_text store0 600 (posted (Some ''tok-a''))))"
  using logout_succeeds_when_token_readable [of "posted None" None 600 store0 exn_text 700]
    logout_succeeds_when_token_readable [of "posted (Some ''unknown'')" "Some ''unknown''" 600 store0
      exn_text 700]
    logout_succeeds_when_token_readable [of "posted (Some ''tok-b'')" "Some ''tok-b''" 600 store0
      exn_text 700]
    logout_succeeds_when_token_readable [of "posted (Some ''tok-a'')" "Some ''tok-a''" 600 store0
      exn_text 700]
  by (simp add: store0_defs live_session_def py_or_def truthy_def)

text \<open>
  The claim asks for 200 on every logout request. The view answers 400 from its outer
  handler in two cases. A request whose body is the JSON list \<^verbatim>\<open>[]\<close> makes
  \<^verbatim>\<open>request.data.get\<close> raise, although its header carries the live token of Alice,
  and her session stays. A token that two user rows hold with a live expiry makes the
  lookup raise \<^verbatim>\<open>MultipleObjectsReturned\<close>.
\<close>

theorem logout_answers_400_counterexample:
  "LogoutView_post exn_text store0 600 list_body =
     (Response (Message ''Logout failed: list object has no attribute get'') HTTP_400_BAD_REQUEST,
      store0)
   \<and> LogoutView_post exn_text store_shared_token 600 (posted (Some ''tok-a'')) =
     (Response (Message ''Logout failed: get() returned more than one User'') HTTP_400_BAD_REQUEST,
      store_shared_token)
   \<and> HTTP_400_BAD_REQUEST \<noteq> HTTP_200_OK"
  by (simp add: store0_defs LogoutView_post_def Logout_failed_def objects_get_def live_session_def
      py_or_def truthy_def HTTP_400_BAD_REQUEST_def HTTP_200_OK_def Let_def)

section \<open>Registration\<close>

text \<open>
  Claim C4. A registration request whose phone number is shorter than 10 or longer than 15
  characters is answered with 400 and a validation error (the phone-number error of the
  view, or the field errors of the serializer when it rejects the request first), and the
  store, the user table with it, is unchanged.
\<close>

theorem register_rejects_phone_length:
  assumes "data_phone_number dat = Some p" and "length p < 10 \<or> length p > 15"
  shows "status (fst (RegisterView_post m d dat)) = HTTP_400_BAD_REQUEST
     \<and> payload (fst (RegisterView_post m d dat)) \<in> {Error ''Invalid phone number format'', SerializerErrors}
     \<and> snd (RegisterView_post m d dat) = d"
proof -
  from assms have "validate_phone_number (data_phone_number dat) = Inl (ValidationError ''Invalid phone number'')"
    by (auto simp: validate_phone_number_def)
  then show ?thesis
    by (simp add: RegisterView_post_def Response_def)
qed

theorem register_rejects_phone_length_witness:
  "data_phone_number (signup\<lparr>data_phone_number := Some ''555''\<rparr>) = Some ''555''
   \<and> length ''555'' < 10
   \<and> RegisterView_post declared store0 (signup\<lparr>data_phone_number := Some ''555''\<rparr>) =
       (Response (Error ''Invalid phone number format'') HTTP_400_BAD_REQUEST, store0)
   \<and> length ''1234567890123456'' > 15
   \<and> RegisterView_post declared store0 (signup\<lparr>data_phone_number := Some ''1234567890123456''\<rparr>) =
       (Response (Error ''Invalid phone number format'') HTTP_400_BAD_REQUEST, store0)"
  using register_rejects_phone_length [of "signup\<lparr>data_phone_number := Some ''555''\<rparr>" "''555''" declared store0]
    register_rejects_phone_length [of "signup\<lparr>data_phone_number := Some ''1234567890123456''\<rparr>"
      "''1234567890123456''" declared store0]
  by (simp add: signup_def declared_def RegisterView_post_def validate_phone_number_def)

lemma le_foldr_max: "x \<in> set xs \<Longrightarrow> x \<le> foldr max xs (0::nat)"
  by (induction xs) auto

lemma new_user_id_fresh: "new_user_id d \<notin> user_id ` set (User_objects d)"
proof
  assume "new_user_id d \<in> user_id ` set (User_objects d)"
  then have "new_user_id d \<in> set (map user_id (User_objects d))"
    by simp
  then have "new_user_id d \<le> foldr max (map user_id (User_objects d)) 0"
    by (rule le_foldr_max)
  then show False
    by (simp add: new_user_id_def)
qed

lemma register_status_created:
  assumes "status (fst (RegisterView_post m d dat)) = HTTP_201_CREATED"
  shows "RegisterView_post m d dat =
    (let (user, d1) = UserRegisterSerializer_save dat d;
         (profile, d2) = UserProfile_objects_create m (user_id user) d1;
         (settings, d3) = UserSettings_objects_create m (user_id user) d2;
         d4 = create_labels (user_id user) default_labels d3
     in (Response (UserData user) HTTP_201_CREATED, d4))"
  using assms
  by (auto simp: RegisterView_post_def Response_def HTTP_201_CREATED_def HTTP_400_BAD_REQUEST_def
      split: if_splits sum.splits)

lemma filter_none: "(\<forall>x \<in> set xs. \<not> P x) \<Longrightarrow> filter P xs = []"
  by (simp add: filter_empty_conv)

lemma register_created_store:
  assumes "status (fst (RegisterView_post m d dat)) = HTTP_201_CREATED"
    and "u = fst (UserRegisterSerializer_save dat d)"
  shows "RegisterView_post m d dat =
    (Response (UserData u) HTTP_201_CREATED,
     d\<lparr>User_objects := User_objects d @ [u],
       UserProfile_objects := UserProfile_objects d @ [(UserProfile_defaults m)\<lparr>profile_user := user_id u\<rparr>],
       UserSettings_objects := UserSettings_objects d @ [(UserSettings_defaults m)\<lparr>settings_user := user_id u\<rparr>],
       Label_objects := Label_objects d @
         [\<lparr>label_user = user_id u, label_name = ''Important'', label_color = ''#FF0000''\<rparr>,
          \<lparr>label_user = user_id u, label_name = ''Personal'', label_color = ''#00FF00''\<rparr>,
          \<lparr>label_user = user_id u, label_name = ''Work'', label_color = ''#0000FF''\<rparr>]\<rparr>)"
proof -
  have sv: "UserRegisterSerializer_save dat d = (u, d\<lparr>User_objects := User_objects d @ [u]\<rparr>)"
    unfolding assms(2) by (simp add: UserRegisterSerializer_save_def Let_def)
  show ?thesis
    unfolding register_status_created [OF assms(1)] sv
    by (simp add: UserProfile_objects_create_def UserSettings_objects_create_def
        Label_objects_create_def default_labels_def Let_def)
qed

text \<open>
  Claim C5. After a registration that is answered with 201, the response carries the new
  user, whose key no user row had before, and the store holds exactly one profile row and
  exactly one settings row of that user and exactly three label rows of that user, named
  Important, Personal and Work. The store before the request keeps referential integrity.
\<close>

theorem register_creates_defaults:
  assumes "references_users d" and "status (fst (RegisterView_post m d dat)) = HTTP_201_CREATED"
  shows "\<exists>u. payload (fst (RegisterView_post m d dat)) = UserData u
       \<and> u \<in> set (User_objects (snd (RegisterView_post m d dat)))
       \<and> user_id u \<notin> user_id ` set (User_objects d)
       \<and> length (filter (\<lambda>p. profile_user p = user_id u)
            (UserProfile_objects (snd (RegisterView_post m d dat)))) = 1
       \<and> length (filter (\<lambda>s. settings_user s = user_id u)
            (UserSettings_objects (snd (RegisterView_post m d dat)))) = 1
       \<and> map label_name (filter (\<lambda>l. label_user l = user_id u)
            (Label_objects (snd (RegisterView_post m d dat)))) = [''Important'', ''Personal'', ''Work'']"
proof -
  define u where "u = fst (UserRegisterSerializer_save dat d)"
  have uid: "user_id u = new_user_id d"
    by (simp add: u_def UserRegisterSerializer_save_def Let_def)
  have fresh: "user_id u \<notin> user_id ` set (User_objects d)"
    unfolding uid by (rule new_user_id_fresh)
  have p0: "filter (\<lambda>p. profile_user p = user_id u) (UserProfile_objects d) = []"
  proof (rule filter_none, rule ballI, rule notI)
    fix p assume "p \<in> set (UserProfile_objects d)" and "profile_user p = user_id u"
    with assms(1) have "user_id u \<in> user_id ` set (User_objects d)"
      unfolding references_users_def by metis
    with fresh show False by simp
  qed
  have s0: "filter (\<lambda>s. settings_user s = user_id u) (UserSettings_objects d) = []"
  proof (rule filter_none, rule ballI, rule notI)
    fix s assume "s \<in> set (UserSettings_objects d)" and "settings_user s = user_id u"
    with assms(1) have "user_id u \<in> user_id ` set (User_objects d)"
      unfolding references_users_def by metis
    with fresh show False by simp
  qed
  have l0: "filter (\<lambda>l. label_user l = user_id u) (Label_objects d) = []"
  proof (rule filter_none, rule ballI, rule notI)
    fix l assume "l \<in> set (Label_objects d)" and "label_user l = user_id u"
    with assms(1) have "user_id u \<in> user_id ` set (User_objects d)"
      unfolding references_users_def by metis
    with fresh show False by simp
  qed
  note post = register_created_store [OF assms(2) u_def]
  have 1: "payload (fst (RegisterView_post m d dat)) = UserData u"
    by (simp add: post Response_def)
  have 2: "u \<in> set (User_objects (snd (RegisterView_post m d dat)))"
    by (simp add: post)
  have 3: "length (filter (\<lambda>p. profile_user p = user_id u)
            (UserProfile_objects (snd (RegisterView_post m d dat)))) = 1"
    by (simp add: post p0)
  have 4: "length (filter (\<lambda>s. settings_user s = user_id u)
            (UserSettings_objects (snd (RegisterView_post m d dat)))) = 1"
    by (simp add: post s0)
  have 5: "map label_name (filter (\<lambda>l. label_user l = user_id u)
            (Label_objects (snd (RegisterView_post m d dat)))) = [''Important'', ''Personal'', ''Work'']"
    by (simp add: post l0)
  show ?thesis
    by (intro exI [of _ u] conjI 1 2 fresh 3 4 5)
qed

theorem register_creates_defaults_witness:
  "references_users store0
   \<and> status (fst (RegisterView_post declared store0 signup)) = HTTP_201_CREATED
   \<and> (\<exists>u. payload (fst (RegisterView_post declared store0 signup)) = UserData u
       \<and> u \<in> set (User_objects (snd (RegisterView_post declared store0 signup)))
       \<and> user_id u \<notin> user_id ` set (User_objects store0)
       \<and> length (filter (\<lambda>p. profile_user p = user_id u)
            (UserProfile_objects (snd (RegisterView_post declared store0 signup)))) = 1
       \<and> length (filter (\<lambda>s. settings_user s = user_id u)
            (UserSettings_objects (snd (RegisterView_post declared store0 signup)))) = 1
       \<and> map label_name (filter (\<lambda>l. label_user l = user_id u)
            (Label_objects (snd (RegisterView_post declared store0 signup)))) =
           [''Important'', ''Personal'', ''Work''])"
proof -
  have r: "references_users store0"
    by (simp add: references_users_def store0_defs)
  have s: "status (fst (RegisterView_post declared store0 signup)) = HTTP_201_CREATED"
    by (simp add: RegisterView_post_def store0_defs signup_def validate_phone_number_def
        UserRegisterSerializer_save_def UserProfile_objects_create_def
        UserSettings_objects_create_def Let_def Response_def)
  show ?thesis
    by (intro conjI r s register_creates_defaults [OF r s])
qed

section \<open>Auto-reply settings\<close>

lemma get_or_create_cases:
  "(\<exists>row. objects_get (UserSettings_objects d) (\<lambda>s. settings_user s = uid) = Inr row
        \<and> UserSettings_get_or_create m uid d = (Inr row, d))
   \<or> (filter (\<lambda>s. settings_user s = uid) (UserSettings_objects d) = []
        \<and> UserSettings_get_or_create m uid d =
            (Inr ((UserSettings_defaults m)\<lparr>settings_user := uid\<rparr>),
             d\<lparr>UserSettings_objects := UserSettings_objects d @
                  [(UserSettings_defaults m)\<lparr>settings_user := uid\<rparr>]\<rparr>))
   \<or> (2 \<le> length (filter (\<lambda>s. settings_user s = uid) (UserSettings_objects d))
        \<and> UserSettings_get_or_create m uid d = (Inl MultipleObjectsReturned, d))"
proof (cases "filter (\<lambda>s. settings_user s = uid) (UserSettings_objects d)")
  case Nil
  then show ?thesis
    by (simp add: UserSettings_get_or_create_def objects_get_def UserSettings_objects_create_def Let_def)
next
  case (Cons r rs)
  then show ?thesis
    by (cases rs) (simp_all add: UserSettings_get_or_create_def objects_get_def)
qed

lemma get_or_create_row:
  assumes "fst (UserSettings_get_or_create m uid d) = Inr row"
  shows "filter (\<lambda>s. settings_user s = uid)
           (UserSettings_objects (snd (UserSettings_get_or_create m uid d))) = [row]
         \<and> settings_user row = uid"
proof -
  consider (found) r where "objects_get (UserSettings_objects d) (\<lambda>s. settings_user s = uid) = Inr r"
      "UserSettings_get_or_create m uid d = (Inr r, d)"
    | (created) "filter (\<lambda>s. settings_user s = uid) (UserSettings_objects d) = []"
      "UserSettings_get_or_create m uid d =
            (Inr ((UserSettings_defaults m)\<lparr>settings_user := uid\<rparr>),
             d\<lparr>UserSettings_objects := UserSettings_objects d @
                  [(UserSettings_defaults m)\<lparr>settings_user := uid\<rparr>]\<rparr>)"
    | (several) "UserSettings_get_or_create m uid d = (Inl MultipleObjectsReturned, d)"
    using get_or_create_cases [of d uid m] by blast
  then show ?thesis
  proof cases
    case found
    with assms have eq: "r = row" by simp
    from found(1) have f: "filter (\<lambda>s. settings_user s = uid) (UserSettings_objects d) = [r]"
      by (simp add: objects_get_Inr)
    then have "r \<in> set (filter (\<lambda>s. settings_user s = uid) (UserSettings_objects d))"
      by simp
    then have "settings_user r = uid" by simp
    with f eq found(2) show ?thesis by simp
  next
    case created
    with assms show ?thesis by auto
  next
    case several
    with assms show ?thesis by simp
  qed
qed

lemma get_or_create_succeeds:
  assumes "length (filter (\<lambda>s. settings_user s = uid) (UserSettings_objects d)) \<le> 1"
  shows "\<exists>row. fst (UserSettings_get_or_create m uid d) = Inr row"
  using get_or_create_cases [of d uid m] assms by auto

lemma get_or_create_found:
  assumes "objects_get (UserSettings_objects d) (\<lambda>s. settings_user s = uid) = Inr row"
  shows "UserSettings_get_or_create m uid d = (Inr row, d)"
  using assms by (simp add: UserSettings_get_or_create_def)

lemma get_or_create_created:
  assumes "filter (\<lambda>s. settings_user s = uid) (UserSettings_objects d) = []"
  shows "UserSettings_get_or_create m uid d =
           (Inr ((UserSettings_defaults m)\<lparr>settings_user := uid\<rparr>),
            d\<lparr>UserSettings_objects := UserSettings_objects d @
                 [(UserSettings_defaults m)\<lparr>settings_user := uid\<rparr>]\<rparr>)"
  using assms
  by (simp add: UserSettings_get_or_create_def objects_get_def UserSettings_objects_create_def
      Let_def)

lemma settings_save_row:
  assumes "filter (\<lambda>r. settings_user r = uid) rows = [row]" and "settings_user s = uid"
  shows "filter (\<lambda>r. settings_user r = uid)
           (map (\<lambda>r. if settings_user r = settings_user s then s else r) rows) = [s]"
proof -
  have "(\<lambda>r. settings_user r = uid) \<circ> (\<lambda>r. if settings_user r = settings_user s then s else r)
        = (\<lambda>r. settings_user r = uid)"
    using assms(2) by (auto simp: fun_eq_iff)
  then have "filter (\<lambda>r. settings_user r = uid)
           (map (\<lambda>r. if settings_user r = settings_user s then s else r) rows)
        = map (\<lambda>r. if settings_user r = settings_user s then s else r)
            (filter (\<lambda>r. settings_user r = uid) rows)"
    by (simp only: filter_map)
  also have "\<dots> = [s]"
  proof -
    from assms(1) have "row \<in> set (filter (\<lambda>r. settings_user r = uid) rows)" by simp
    then have "settings_user row = uid" by simp
    with assms show ?thesis by simp
  qed
  finally show ?thesis .
qed

text \<open>
  Claim C6, as the view has it. An auto-reply PUT that supplies both dates with the start
  date strictly after the end date is answered with 400 (the date-range error of the view,
  or the field errors of the serializer when it rejects the request), and nothing of the
  request is persisted: the store is as \<^verbatim>\<open>get_or_create\<close> left it. That is the
  store before the request when the settings row of the user existed, and the store with
  one more settings row, the row of the user with the column defaults, when the user had
  none. The user has at most one settings row.
\<close>

theorem put_start_after_end_rejected:
  assumes "data_auto_reply_start_date dat = Some s"
    and "data_auto_reply_end_date dat = Some e"
    and "e < s"
    and "length (filter (\<lambda>r. settings_user r = uid) (UserSettings_objects d)) \<le> 1"
  shows "status (fst (AutoReplySettingsView_put m d uid dat)) = HTTP_400_BAD_REQUEST
     \<and> payload (fst (AutoReplySettingsView_put m d uid dat))
          \<in> {Error ''Start date must be before end date'', SerializerErrors}
     \<and> snd (AutoReplySettingsView_put m d uid dat) = snd (UserSettings_get_or_create m uid d)
     \<and> (\<forall>row. objects_get (UserSettings_objects d) (\<lambda>r. settings_user r = uid) = Inr row
          \<longrightarrow> snd (AutoReplySettingsView_put m d uid dat) = d)
     \<and> (filter (\<lambda>r. settings_user r = uid) (UserSettings_objects d) = []
          \<longrightarrow> snd (AutoReplySettingsView_put m d uid dat) =
               d\<lparr>UserSettings_objects := UserSettings_objects d @
                    [(UserSettings_defaults m)\<lparr>settings_user := uid\<rparr>]\<rparr>)"
proof -
  from assms(4) obtain row where "fst (UserSettings_get_or_create m uid d) = Inr row"
    using get_or_create_succeeds by blast
  then have goc: "UserSettings_get_or_create m uid d = (Inr row, snd (UserSettings_get_or_create m uid d))"
    by (metis prod.collapse)
  from assms(1-3) have sae: "start_after_end (data_auto_reply_start_date dat) (data_auto_reply_end_date dat)"
    by (simp add: start_after_end_def)
  have put: "AutoReplySettingsView_put m d uid dat =
      (if AutoReplySettingsSerializer_is_valid m row dat
       then Response (Error ''Start date must be before end date'') HTTP_400_BAD_REQUEST
       else Response SerializerErrors HTTP_400_BAD_REQUEST,
       snd (UserSettings_get_or_create m uid d))"
    unfolding AutoReplySettingsView_put_def using sae
    by (subst goc) (simp add: Let_def)
  have 1: "status (fst (AutoReplySettingsView_put m d uid dat)) = HTTP_400_BAD_REQUEST"
    by (simp add: put Response_def)
  have 2: "payload (fst (AutoReplySettingsView_put m d uid dat))
          \<in> {Error ''Start date must be before end date'', SerializerErrors}"
    by (simp add: put Response_def)
  have 3: "snd (AutoReplySettingsView_put m d uid dat) = snd (UserSettings_get_or_create m uid d)"
    by (simp add: put)
  have 4: "\<forall>row. objects_get (UserSettings_objects d) (\<lambda>r. settings_user r = uid) = Inr row
          \<longrightarrow> snd (AutoReplySettingsView_put m d uid dat) = d"
    by (simp add: 3 get_or_create_found)
  have 5: "filter (\<lambda>r. settings_user r = uid) (UserSettings_objects d) = []
          \<longrightarrow> snd (AutoReplySettingsView_put m d uid dat) =
               d\<lparr>UserSettings_objects := UserSettings_objects d @
                    [(UserSettings_defaults m)\<lparr>settings_user := uid\<rparr>]\<rparr>"
    by (simp add: 3 get_or_create_created)
  show ?thesis
    by (intro conjI 1 2 3 4 5)
qed

theorem put_start_after_end_rejected_witness:
  "data_auto_reply_start_date (away\<lparr>data_auto_reply_start_date := Some 900\<rparr>) = Some 900
   \<and> data_auto_reply_end_date (away\<lparr>data_auto_reply_start_date := Some 900\<rparr>) = Some 700
   \<and> (700::int) < 900
   \<and> length (filter (\<lambda>r. settings_user r = 1) (UserSettings_objects store0)) \<le> 1
   \<and> AutoReplySettingsView_put declared store0 1 (away\<lparr>data_auto_reply_start_date := Some 900\<rparr>) =
       (Response (Error ''Start date must be before end date'') HTTP_400_BAD_REQUEST, store0)"
  using put_start_after_end_rejected [of "away\<lparr>data_auto_reply_start_date := Some 900\<rparr>" 900 700 1
      store0 declared]
  by (simp add: store0_defs away_def AutoReplySettingsView_put_def UserSettings_get_or_create_def
      objects_get_def start_after_end_def)

text \<open>
  The claim asks for the rejection whenever the start date does not precede the end date,
  and for an unchanged store on every rejection. For equal dates the test
  \<^verbatim>\<open>start_date > end_date\<close> is false: the request of Alice is saved and answered with
  200. And the view calls \<^verbatim>\<open>get_or_create\<close> before it looks at the dates: Bob has no
  settings row, his request with start 900 after end 700 is answered with 400, and the
  store has gained his settings row.
\<close>

theorem put_dates_and_store_counterexample:
  "data_auto_reply_start_date away = Some 700 \<and> data_auto_reply_end_date away = Some 700
   \<and> \<not> ((700::int) < 700)
   \<and> AutoReplySettingsView_put declared store0 1 away =
       (Response (AutoReplyData (settings_off\<lparr>auto_reply_message := Some ''Back soon'',
            auto_reply_start_date := Some 700, auto_reply_end_date := Some 700\<rparr>)) HTTP_200_OK,
        store0\<lparr>UserSettings_objects := [settings_off\<lparr>auto_reply_message := Some ''Back soon'',
            auto_reply_start_date := Some 700, auto_reply_end_date := Some 700\<rparr>]\<rparr>)
   \<and> status (fst (AutoReplySettingsView_put declared store0 1 away)) \<noteq> HTTP_400_BAD_REQUEST
   \<and> snd (AutoReplySettingsView_put declared store0 1 away) \<noteq> store0
   \<and> data_auto_reply_start_date (away\<lparr>data_auto_reply_start_date := Some 900\<rparr>) = Some 900
   \<and> data_auto_reply_end_date (away\<lparr>data_auto_reply_start_date := Some 900\<rparr>) = Some 700
   \<and> \<not> ((900::int) < 700)
   \<and> AutoReplySettingsView_put declared store0 2 (away\<lparr>data_auto_reply_start_date := Some 900\<rparr>) =
       (Response (Error ''Start date must be before end date'') HTTP_400_BAD_REQUEST,
        store0\<lparr>UserSettings_objects := [settings_off, settings_off\<lparr>settings_user := 2\<rparr>]\<rparr>)
   \<and> snd (AutoReplySettingsView_put declared store0 2 (away\<lparr>data_auto_reply_start_date := Some 900\<rparr>))
        \<noteq> store0"
  by (simp add: store0_defs AutoReplySettingsView_put_def UserSettings_get_or_create_def
      UserSettings_objects_create_def
      objects_get_def start_after_end_def partial_update_def settings_save_def Response_def
      HTTP_200_OK_def HTTP_400_BAD_REQUEST_def Let_def)

text \<open>
  Claim C7, as the view has it. An auto-reply PATCH on a settings row that is disabled and
  has neither start date nor end date is answered with 200, and the row of the user is
  stored enabled, with the first clock reading as start date and the second clock reading
  plus 30 days as end date. The end date is the start date plus 30 days plus the time
  between the two readings; it is the start date plus 30 days when both readings are the
  same instant.
\<close>

theorem patch_enables_with_default_window:
  assumes "fst (UserSettings_get_or_create m uid d) = Inr row"
    and "\<not> auto_reply_enabled row"
    and "auto_reply_start_date row = None"
    and "auto_reply_end_date row = None"
  shows "AutoReplySettingsView_patch m d now1 now2 uid =
      (Response (AutoReplyData (row\<lparr>auto_reply_enabled := True,
                                     auto_reply_start_date := Some now1,
                                     auto_reply_end_date := Some (now2 + timedelta_days 30)\<rparr>))
         HTTP_200_OK,
       settings_save (row\<lparr>auto_reply_enabled := True,
                          auto_reply_start_date := Some now1,
                          auto_reply_end_date := Some (now2 + timedelta_days 30)\<rparr>)
         (snd (UserSettings_get_or_create m uid d)))
    \<and> filter (\<lambda>r. settings_user r = uid)
         (UserSettings_objects (snd (AutoReplySettingsView_patch m d now1 now2 uid))) =
        [row\<lparr>auto_reply_enabled := True,
             auto_reply_start_date := Some now1,
             auto_reply_end_date := Some (now2 + timedelta_days 30)\<rparr>]
    \<and> (now2 + timedelta_days 30) - now1 = timedelta_days 30 + (now2 - now1)
    \<and> (now1 = now2 \<longrightarrow> now2 + timedelta_days 30 = now1 + timedelta_days 30)"
proof -
  let ?row' = "row\<lparr>auto_reply_enabled := True,
                    auto_reply_start_date := Some now1,
                    auto_reply_end_date := Some (now2 + timedelta_days 30)\<rparr>"
  let ?d1 = "snd (UserSettings_get_or_create m uid d)"
  from assms(1) have goc: "UserSettings_get_or_create m uid d = (Inr row, ?d1)"
    by (metis prod.collapse)
  have patch: "AutoReplySettingsView_patch m d now1 now2 uid =
      (Response (AutoReplyData ?row') HTTP_200_OK, settings_save ?row' ?d1)"
    unfolding AutoReplySettingsView_patch_def using assms(2-4)
    by (subst goc) (simp add: Let_def)
  from get_or_create_row [OF assms(1)]
  have rows: "filter (\<lambda>s. settings_user s = uid) (UserSettings_objects ?d1) = [row]"
    and key: "settings_user row = uid"
    by simp_all
  from key have key': "settings_user ?row' = uid"
    by simp
  have stored: "filter (\<lambda>r. settings_user r = uid)
         (UserSettings_objects (snd (AutoReplySettingsView_patch m d now1 now2 uid))) = [?row']"
    using settings_save_row [OF rows key']
    by (simp add: patch settings_save_def)
  have diff: "(now2 + timedelta_days 30) - now1 = timedelta_days 30 + (now2 - now1)"
    by simp
  have same: "now1 = now2 \<longrightarrow> now2 + timedelta_days 30 = now1 + timedelta_days 30"
    by simp
  show ?thesis
    by (intro conjI patch stored diff same)
qed

theorem patch_enables_with_default_window_witness:
  "fst (UserSettings_get_or_create declared 1 store0) = Inr settings_off
   \<and> \<not> auto_reply_enabled settings_off
   \<and> auto_reply_start_date settings_off = None
   \<and> auto_reply_end_date settings_off = None
   \<and> filter (\<lambda>r. settings_user r = 1)
         (UserSettings_objects (snd (AutoReplySettingsView_patch declared store0 600 600 1))) =
        [settings_off\<lparr>auto_reply_enabled := True,
             auto_reply_start_date := Some 600,
             auto_reply_end_date := Some (600 + timedelta_days 30)\<rparr>]"
  using patch_enables_with_default_window [of declared 1 store0 settings_off 600 600]
  by (simp add: store0_defs UserSettings_get_or_create_def objects_get_def
      AutoReplySettingsView_patch_def settings_save_def Let_def)

text \<open>
  The claim asks for an end date equal to the start date plus 30 days. The view calls
  \<^verbatim>\<open>timezone.now()\<close> once for each date; with the second reading one microsecond
  after the first, the stored end date is one microsecond later than the claim says.
\<close>

theorem patch_two_clock_readings_counterexample:
  "objects_get (UserSettings_objects store0) (\<lambda>s. settings_user s = 1) = Inr settings_off
   \<and> \<not> auto_reply_enabled settings_off
   \<and> auto_reply_start_date settings_off = None
   \<and> auto_reply_end_date settings_off = None
   \<and> AutoReplySettingsView_patch declared store0 600 601 1 =
       (Response (AutoReplyData (settings_off\<lparr>auto_reply_enabled := True,
            auto_reply_start_date := Some 600,
            auto_reply_end_date := Some 2592000000601\<rparr>)) HTTP_200_OK,
        store0\<lparr>UserSettings_objects := [settings_off\<lparr>auto_reply_enabled := True,
            auto_reply_start_date := Some 600,
            auto_reply_end_date := Some 2592000000601\<rparr>]\<rparr>)
   \<and> (2592000000601::int) \<noteq> 600 + timedelta_days 30"
  by (simp add: store0_defs AutoReplySettingsView_patch_def UserSettings_get_or_create_def
      objects_get_def settings_save_def timedelta_days_def Let_def)

section \<open>Email search\<close>

lemma recipient_or_sender_set:
  "e \<in> set (recipient_or_sender d u) \<Longrightarrow>
     e \<in> set (Email_objects d) \<and> (u \<in> set (recipients e) \<or> sender e = u)"
  by (auto simp: recipient_or_sender_def left_outer_join_def split: if_splits)

lemma exclude_trashed_set:
  "e \<in> set (exclude_trashed queryset) \<Longrightarrow> e \<in> set queryset \<and> \<not> is_trashed e"
  by (simp add: exclude_trashed_def)

lemma filter_date_range_set:
  "filter_date_range to_python params queryset = Inr queryset' \<Longrightarrow> set queryset' \<subseteq> set queryset"
  by (auto simp: filter_date_range_def filter_sent_at_range_def split: option.splits if_splits)

lemma filter_status_set: "set (filter_status params queryset) \<subseteq> set queryset"
  by (auto simp: filter_status_def Let_def)

lemma filter_label_set: "set (filter_label params queryset) \<subseteq> set queryset"
  by (auto simp: filter_label_def split: option.splits)

lemma filter_has_attachments_set: "set (filter_has_attachments params queryset) \<subseteq> set queryset"
  by (auto simp: filter_has_attachments_def attachments_isnull_False_def Let_def)

lemma search_filter_set: "set (search_filter matches params queryset) \<subseteq> set queryset"
  by (auto simp: search_filter_def split: option.splits)

lemma get_queryset_set:
  assumes "get_queryset to_python d user params = Inr queryset" and "e \<in> set queryset"
  shows "e \<in> set (Email_objects d) \<and> \<not> is_trashed e \<and> (user \<in> set (recipients e) \<or> sender e = user)"
proof -
  from assms(1) obtain q1 where
    q1: "filter_date_range to_python params (exclude_trashed (recipient_or_sender d user)) = Inr q1"
    and qs: "queryset = filter_has_attachments params (filter_label params (filter_status params q1))"
    by (auto simp: get_queryset_def Let_def split: sum.splits)
  from assms(2) qs have "e \<in> set q1"
    using filter_has_attachments_set filter_label_set filter_status_set by blast
  with q1 have "e \<in> set (exclude_trashed (recipient_or_sender d user))"
    using filter_date_range_set by blast
  then have "e \<in> set (recipient_or_sender d user)" and "\<not> is_trashed e"
    using exclude_trashed_set by blast+
  then show ?thesis
    using recipient_or_sender_set by blast
qed

text \<open>
  Claim C8. Whatever the query parameters are (search string, date range, status, label,
  has_attachments), every email that the search lists is a row of the email table that is
  not flagged trashed and has the caller among its recipients or as its sender.
\<close>

theorem search_never_trashed_always_own:
  assumes "AdvancedEmailSearchView_list to_python matches d user params = Inr result"
  shows "\<forall>e \<in> set result. e \<in> set (Email_objects d) \<and> \<not> is_trashed e
           \<and> (user \<in> set (recipients e) \<or> sender e = user)"
proof
  fix e assume e: "e \<in> set result"
  from assms obtain queryset where
    g: "get_queryset to_python d user params = Inr queryset"
    and r: "result = search_filter matches params queryset"
    by (auto simp: AdvancedEmailSearchView_list_def split: sum.splits)
  from e r have "e \<in> set queryset"
    using search_filter_set by blast
  with g show "e \<in> set (Email_objects d) \<and> \<not> is_trashed e
           \<and> (user \<in> set (recipients e) \<or> sender e = user)"
    by (rule get_queryset_set)
qed

theorem search_never_trashed_always_own_witness:
  "AdvancedEmailSearchView_list (\<lambda>s. None) (\<lambda>terms e. True) store0 1 query = Inr [mail1, mail4]
   \<and> is_trashed mail2 \<and> mail2 \<in> set (Email_objects store0) \<and> 1 \<in> set (recipients mail2)
   \<and> \<not> is_trashed mail1 \<and> sender mail1 = 1
   \<and> \<not> is_trashed mail4 \<and> 1 \<in> set (recipients mail4)"
proof -
  have run: "AdvancedEmailSearchView_list (\<lambda>s. None) (\<lambda>terms e. True) store0 1 query = Inr [mail1, mail4]"
    by (simp add: AdvancedEmailSearchView_list_def get_queryset_def recipient_or_sender_def
        left_outer_join_def exclude_trashed_def filter_date_range_def filter_status_def
        filter_label_def filter_has_attachments_def search_filter_def truthy_def query_def
        store0_def mail1_def mail2_def mail3_def mail4_def)
  have "is_trashed mail2 \<and> mail2 \<in> set (Email_objects store0) \<and> 1 \<in> set (recipients mail2)"
    by (simp add: store0_def mail2_def)
  with run search_never_trashed_always_own [OF run] show ?thesis
    by (simp add: mail1_def mail4_def)
qed

text \<open>
  Claim C9. With any non-empty string as \<^verbatim>\<open>has_attachments\<close> the query set is the one
  without the parameter, joined with the attachments and made distinct; so the strings
  \<^verbatim>\<open>false\<close> and \<^verbatim>\<open>0\<close> give the query set that \<^verbatim>\<open>true\<close> gives. With the empty
  string the query set is the one without the parameter, which is the query set of the
  earlier filters with no attachment filter applied.
\<close>

theorem has_attachments_tests_truthiness:
  "(s \<noteq> [] \<longrightarrow>
      get_queryset to_python d user (params\<lparr>param_has_attachments := Some s\<rparr>) =
        map_sum id (\<lambda>queryset. remdups (attachments_isnull_False queryset))
          (get_queryset to_python d user (params\<lparr>param_has_attachments := None\<rparr>)))
   \<and> get_queryset to_python d user (params\<lparr>param_has_attachments := Some ''false''\<rparr>) =
       get_queryset to_python d user (params\<lparr>param_has_attachments := Some ''true''\<rparr>)
   \<and> get_queryset to_python d user (params\<lparr>param_has_attachments := Some ''0''\<rparr>) =
       get_queryset to_python d user (params\<lparr>param_has_attachments := Some ''true''\<rparr>)
   \<and> get_queryset to_python d user (params\<lparr>param_has_attachments := Some []\<rparr>) =
       get_queryset to_python d user (params\<lparr>param_has_attachments := None\<rparr>)
   \<and> get_queryset to_python d user (params\<lparr>param_has_attachments := None\<rparr>) =
       (case filter_date_range to_python params (exclude_trashed (recipient_or_sender d user)) of
          Inl e \<Rightarrow> Inl e
        | Inr queryset \<Rightarrow> Inr (filter_label params (filter_status params queryset)))"
  by (simp add: get_queryset_def filter_has_attachments_def filter_date_range_def
      filter_status_def filter_label_def truthy_def Let_def split: sum.splits)

theorem has_attachments_tests_truthiness_witness:
  "''false'' \<noteq> []
   \<and> get_queryset (\<lambda>s. None) store0 1 (query\<lparr>param_has_attachments := None\<rparr>) = Inr [mail1, mail4]
   \<and> get_queryset (\<lambda>s. None) store0 1 (query\<lparr>param_has_attachments := Some ''false''\<rparr>) = Inr [mail1]
   \<and> attachments mail4 = []"
  using has_attachments_tests_truthiness [of "''false''" "\<lambda>s. None" store0 1 query]
  by (simp add: get_queryset_def recipient_or_sender_def
        left_outer_join_def exclude_trashed_def filter_date_range_def filter_status_def
        filter_label_def filter_has_attachments_def attachments_isnull_False_def truthy_def query_def
        store0_def mail1_def mail2_def mail3_def mail4_def)

section \<open>Two-factor setup\<close>

lemma put_with_profile:
  assumes "objects_get (UserProfile_objects d) (\<lambda>p. profile_user p = uid) = Inr profile"
  shows "TwoFactorSetupView_put digit d uid code =
    (case verify_two_factor_code digit code of
       Inl e \<Rightarrow> (Inl e, d)
     | Inr True \<Rightarrow>
         (Inr (Response (Message ''Two-factor authentication enabled'') HTTP_200_OK),
          profile_save (profile\<lparr>two_factor_enabled := True\<rparr>) d)
     | Inr False \<Rightarrow>
         (Inr (Response (Error ''Invalid verification code'') HTTP_400_BAD_REQUEST), d))"
  using assms by (simp add: TwoFactorSetupView_put_def)

lemma put_responds:
  assumes "fst (TwoFactorSetupView_put digit d uid code) = Inr resp"
  shows "\<exists>c. code = Some c
     \<and> resp = (if length c = 6 \<and> isdigit digit c
               then Response (Message ''Two-factor authentication enabled'') HTTP_200_OK
               else Response (Error ''Invalid verification code'') HTTP_400_BAD_REQUEST)"
proof (cases "objects_get (UserProfile_objects d) (\<lambda>p. profile_user p = uid)")
  case (Inl e)
  with assms show ?thesis
    by (cases e) (simp_all add: TwoFactorSetupView_put_def)
next
  case (Inr profile)
  note put = put_with_profile [OF Inr, where code = code and digit = digit]
  show ?thesis
  proof (cases code)
    case None
    with assms put show ?thesis
      by (simp add: verify_two_factor_code_def)
  next
    case (Some c)
    with assms put show ?thesis
      by (cases "length c = 6"; cases "isdigit digit c") (simp_all add: verify_two_factor_code_def)
  qed
qed

lemma put_bad_request:
  assumes "fst (TwoFactorSetupView_put digit d uid code) = Inr resp"
    and "status resp = HTTP_400_BAD_REQUEST"
  shows "\<exists>c. code = Some c \<and> \<not> (length c = 6 \<and> isdigit digit c)"
proof -
  from assms(1) obtain c where c: "code = Some c"
    and r: "resp = (if length c = 6 \<and> isdigit digit c
               then Response (Message ''Two-factor authentication enabled'') HTTP_200_OK
               else Response (Error ''Invalid verification code'') HTTP_400_BAD_REQUEST)"
    using put_responds by blast
  have "\<not> (length c = 6 \<and> isdigit digit c)"
  proof
    assume "length c = 6 \<and> isdigit digit c"
    with r have "status resp = HTTP_200_OK"
      by (simp add: Response_def)
    with assms(2) show False
      by (simp add: HTTP_200_OK_def HTTP_400_BAD_REQUEST_def)
  qed
  with c show ?thesis by blast
qed

text \<open>
  Claim C10. \<^verbatim>\<open>verify_two_factor_code(None)\<close> raises \<^verbatim>\<open>TypeError\<close>. A two-factor PUT
  without \<^verbatim>\<open>verification_code\<close>, for a user who has a profile, ends with that
  unhandled \<^verbatim>\<open>TypeError\<close> and leaves the store as it was; no PUT without the code
  returns a response. The 400 response is returned only for a code that is present and is
  not six digits, and for every such code when the user has a profile; this holds for
  whatever characters \<^verbatim>\<open>str.isdigit\<close> takes as digits.
\<close>

theorem two_factor_code_absent_raises:
  "verify_two_factor_code digit None = Inl TypeError
   \<and> (\<forall>profile. objects_get (UserProfile_objects d) (\<lambda>p. profile_user p = uid) = Inr profile
        \<longrightarrow> TwoFactorSetupView_put digit d uid None = (Inl TypeError, d))
   \<and> (\<forall>resp. fst (TwoFactorSetupView_put digit d uid None) \<noteq> Inr resp)
   \<and> (\<forall>resp. fst (TwoFactorSetupView_put digit d uid code) = Inr resp
          \<and> status resp = HTTP_400_BAD_REQUEST
        \<longrightarrow> (\<exists>c. code = Some c \<and> \<not> (length c = 6 \<and> isdigit digit c)))
   \<and> (\<forall>profile c. objects_get (UserProfile_objects d) (\<lambda>p. profile_user p = uid) = Inr profile
          \<and> \<not> (length c = 6 \<and> isdigit digit c)
        \<longrightarrow> TwoFactorSetupView_put digit d uid (Some c) =
            (Inr (Response (Error ''Invalid verification code'') HTTP_400_BAD_REQUEST), d))"
proof -
  have 1: "verify_two_factor_code digit None = Inl TypeError"
    by (simp add: verify_two_factor_code_def)
  have 2: "\<forall>profile. objects_get (UserProfile_objects d) (\<lambda>p. profile_user p = uid) = Inr profile
        \<longrightarrow> TwoFactorSetupView_put digit d uid None = (Inl TypeError, d)"
  proof (intro allI impI)
    fix profile
    assume "objects_get (UserProfile_objects d) (\<lambda>p. profile_user p = uid) = Inr profile"
    then have "TwoFactorSetupView_put digit d uid None =
      (case verify_two_factor_code digit None of
         Inl e \<Rightarrow> (Inl e, d)
       | Inr True \<Rightarrow>
           (Inr (Response (Message ''Two-factor authentication enabled'') HTTP_200_OK),
            profile_save (profile\<lparr>two_factor_enabled := True\<rparr>) d)
       | Inr False \<Rightarrow>
           (Inr (Response (Error ''Invalid verification code'') HTTP_400_BAD_REQUEST), d))"
      by (rule put_with_profile)
    then show "TwoFactorSetupView_put digit d uid None = (Inl TypeError, d)"
      by (simp add: 1)
  qed
  have 3: "\<forall>resp. fst (TwoFactorSetupView_put digit d uid None) \<noteq> Inr resp"
    using put_responds [of digit d uid None] by auto
  have 4: "\<forall>resp. fst (TwoFactorSetupView_put digit d uid code) = Inr resp
          \<and> status resp = HTTP_400_BAD_REQUEST
        \<longrightarrow> (\<exists>c. code = Some c \<and> \<not> (length c = 6 \<and> isdigit digit c))"
  proof (intro allI impI)
    fix resp
    assume a: "fst (TwoFactorSetupView_put digit d uid code) = Inr resp
          \<and> status resp = HTTP_400_BAD_REQUEST"
    then have "fst (TwoFactorSetupView_put digit d uid code) = Inr resp"
      and "status resp = HTTP_400_BAD_REQUEST"
      by simp_all
    then show "\<exists>c. code = Some c \<and> \<not> (length c = 6 \<and> isdigit digit c)"
      by (rule put_bad_request)
  qed
  have 5: "\<forall>profile c. objects_get (UserProfile_objects d) (\<lambda>p. profile_user p = uid) = Inr profile
          \<and> \<not> (length c = 6 \<and> isdigit digit c)
        \<longrightarrow> TwoFactorSetupView_put digit d uid (Some c) =
            (Inr (Response (Error ''Invalid verification code'') HTTP_400_BAD_REQUEST), d)"
  proof (intro allI impI)
    fix profile c
    assume a: "objects_get (UserProfile_objects d) (\<lambda>p. profile_user p = uid) = Inr profile
          \<and> \<not> (length c = 6 \<and> isdigit digit c)"
    then have v: "verify_two_factor_code digit (Some c) = Inr False"
      by (simp add: verify_two_factor_code_def)
    from a have "objects_get (UserProfile_objects d) (\<lambda>p. profile_user p = uid) = Inr profile"
      by simp
    then have "TwoFactorSetupView_put digit d uid (Some c) =
      (case verify_two_factor_code digit (Some c) of
         Inl e \<Rightarrow> (Inl e, d)
       | Inr True \<Rightarrow>
           (Inr (Response (Message ''Two-factor authentication enabled'') HTTP_200_OK),
            profile_save (profile\<lparr>two_factor_enabled := True\<rparr>) d)
       | Inr False \<Rightarrow>
           (Inr (Response (Error ''Invalid verification code'') HTTP_400_BAD_REQUEST), d))"
      by (rule put_with_profile)
    then show "TwoFactorSetupView_put digit d uid (Some c) =
            (Inr (Response (Error ''Invalid verification code'') HTTP_400_BAD_REQUEST), d)"
      by (simp add: v)
  qed
  show ?thesis
    by (intro conjI 1 2 3 4 5)
qed

theorem two_factor_code_absent_raises_witness:
  "objects_get (UserProfile_objects store0) (\<lambda>p. profile_user p = 1) =
      Inr \<lparr>profile_user = 1, two_factor_enabled = False\<rparr>
   \<and> TwoFactorSetupView_put latin1_digit store0 1 None = (Inl TypeError, store0)
   \<and> \<not> (length ''12345'' = 6 \<and> isdigit latin1_digit ''12345'')
   \<and> TwoFactorSetupView_put latin1_digit store0 1 (Some ''12345'') =
        (Inr (Response (Error ''Invalid verification code'') HTTP_400_BAD_REQUEST), store0)
   \<and> \<not> (length ''12345x'' = 6 \<and> isdigit latin1_digit ''12345x'')
   \<and> TwoFactorSetupView_put latin1_digit store0 1 (Some ''12345x'') =
        (Inr (Response (Error ''Invalid verification code'') HTTP_400_BAD_REQUEST), store0)
   \<and> fst (TwoFactorSetupView_put latin1_digit store0 1 (Some ''123456'')) =
        Inr (Response (Message ''Two-factor authentication enabled'') HTTP_200_OK)
   \<and> fst (TwoFactorSetupView_put latin1_digit store0 1 (Some (replicate 6 (CHR 0xB2)))) =
        Inr (Response (Message ''Two-factor authentication enabled'') HTTP_200_OK)"
  using two_factor_code_absent_raises [of latin1_digit store0 1 "Some ''12345''"]
    two_factor_code_absent_raises [of latin1_digit store0 1 "Some ''12345x''"]
  by (simp add: store0_defs objects_get_def TwoFactorSetupView_put_def verify_two_factor_code_def
      isdigit_def latin1_digit_def numeral_eq_Suc)

end
